theory Spec2Isabelle
  imports Complex_Main
begin

section \<open>Regression objectives of LightGBM\<close>

text \<open>
  A shallow embedding of \<^verbatim>\<open>src/objective/regression_objective.hpp\<close>: the four classes
  \<^verbatim>\<open>RegressionL2loss\<close>, \<^verbatim>\<open>RegressionL1loss\<close>, \<^verbatim>\<open>RegressionHuberLoss\<close> and
  \<^verbatim>\<open>RegressionFairLoss\<close>, each with its constructor, \<^verbatim>\<open>Init\<close>, \<^verbatim>\<open>GetGradients\<close> and
  \<^verbatim>\<open>GetName\<close>.
\<close>

subsection \<open>Numbers\<close>

text \<open>
  The arithmetic of the code is read in two ways.

  In the exact reading the C++ types \<^verbatim>\<open>double\<close>, \<^verbatim>\<open>float\<close> and \<^verbatim>\<open>score_t\<close> are all the
  real numbers: \<open>+\<close>, \<open>-\<close>, \<open>*\<close>, \<open>/\<close> and \<open>\<bar>x\<bar>\<close> stand for the machine operations without
  their rounding, and there is no infinity and no NaN. The theorems on the sign rule of the
  absolute-error class, on the threshold of the Huber class, on the elements a call reads
  and writes, and on the names are statements about this reading.

  In the floating-point reading (\<open>Floating-point values\<close> below) \<^verbatim>\<open>double\<close> is the binary64
  format and \<^verbatim>\<open>float\<close> and \<^verbatim>\<open>score_t\<close> are the binary32 format of IEEE 754, every operation
  rounds to the nearest number of its format, and there are infinities and NaN. The
  theorems on the values that the squared-error, Huber and Fair classes write are
  statements about that reading.

  The typedefs \<^verbatim>\<open>score_t\<close> and \<^verbatim>\<open>data_size_t\<close> are declared in a header outside this file;
  \<^verbatim>\<open>score_t\<close> is taken to be \<^verbatim>\<open>float\<close> and \<^verbatim>\<open>data_size_t\<close> a signed integer type, as their
  uses here show (\<^verbatim>\<open>hessians[i] = 1.0f\<close>, \<^verbatim>\<open>data_size_t i = 0; i < num_data_; ++i\<close>).
\<close>

type_synonym double = real
type_synonym float = real
type_synonym score_t = real
type_synonym data_size_t = int

text \<open>\<^verbatim>\<open>static_cast<score_t>(x)\<close> in the exact reading: the conversion changes nothing.\<close>

definition static_cast_score_t :: "double \<Rightarrow> score_t" where
  "static_cast_score_t x = x"

subsection \<open>Collaborators\<close>

text \<open>
  Modelled from the spec: the class \<^verbatim>\<open>Metadata\<close> is declared outside this file. Its two
  accessors used here are \<^verbatim>\<open>label()\<close>, a vector of one label per example that is never
  null, and \<^verbatim>\<open>weights()\<close>, a vector of one weight per example or the null pointer
  (\<open>None\<close>).
\<close>

record Metadata =
  label :: "float list"
  weights :: "float list option"

text \<open>
  Modelled from the spec: the class \<^verbatim>\<open>ObjectiveConfig\<close> is declared outside this file.
  The constructors read its numeric fields \<^verbatim>\<open>gaussian_eta\<close>, \<^verbatim>\<open>huber_delta\<close> and
  \<^verbatim>\<open>fair_c\<close> and convert them to \<^verbatim>\<open>double\<close>.
\<close>

record ObjectiveConfig =
  gaussian_eta :: real
  huber_delta :: real
  fair_c :: real

text \<open>
  \<^verbatim>\<open>Common::ApproximateHessianWithGaussian\<close> is defined outside this file. The functions
  that call it take it as their first argument. Its arguments are, in the order of the
  calls, \<^verbatim>\<open>score[i]\<close>, \<^verbatim>\<open>label_[i]\<close>, \<^verbatim>\<open>gradients[i]\<close>, \<^verbatim>\<open>eta_\<close> and the weight, which the
  unweighted loops do not pass (\<open>None\<close>).
\<close>

type_synonym smoother = "double \<Rightarrow> double \<Rightarrow> double \<Rightarrow> double \<Rightarrow> double option \<Rightarrow> double"

subsection \<open>The loop\<close>

text \<open>
  \<^verbatim>\<open>for (data_size_t i = 0; i < num_data_; ++i) body\<close>, started at \<open>i\<close>. The state \<open>s\<close>
  is what the body writes: the two output vectors. The iterations of each loop write to
  disjoint places and read nothing another iteration writes, so the order in which
  \<^verbatim>\<open>#pragma omp parallel for\<close> runs them does not show; the model runs them in order.
\<close>

function for_loop :: "data_size_t \<Rightarrow> data_size_t \<Rightarrow> (data_size_t \<Rightarrow> 's \<Rightarrow> 's) \<Rightarrow> 's \<Rightarrow> 's" where
  "for_loop i n body s = (if i < n then for_loop (i + 1) n body (body i s) else s)"
  by pat_completeness auto
termination
  by (relation "measure (\<lambda>(i, n, body, s). nat (n - i))") auto

declare for_loop.simps [simp del]

subsection \<open>The classes\<close>

text \<open>
  The private members \<^verbatim>\<open>num_data_\<close>, \<^verbatim>\<open>label_\<close>, \<^verbatim>\<open>weights_\<close>, \<^verbatim>\<open>eta_\<close>, \<^verbatim>\<open>delta_\<close> and
  \<^verbatim>\<open>c_\<close> are written with a prime for the trailing underscore. The four classes declare
  the first three members alike; the records share them by extension, which stands for
  no inheritance between the classes. A pointer to a vector is modelled by the vector, a
  null pointer by \<open>None\<close>. A constructor leaves the members that \<^verbatim>\<open>Init\<close> sets
  uninitialised (\<open>undefined\<close>).
\<close>

record RegressionL2loss =
  num_data' :: data_size_t
  label' :: "float list"
  weights' :: "float list option"

record RegressionL1loss = RegressionL2loss +
  eta' :: double

record RegressionHuberLoss = RegressionL1loss +
  delta' :: double

record RegressionFairLoss = RegressionL2loss +
  c' :: double

subsubsection \<open>RegressionL2loss\<close>

definition RegressionL2loss_new :: "ObjectiveConfig \<Rightarrow> RegressionL2loss" where
  "RegressionL2loss_new config =
     \<lparr>num_data' = undefined, label' = undefined, weights' = undefined\<rparr>"

definition RegressionL2loss_Init ::
  "RegressionL2loss \<Rightarrow> Metadata \<Rightarrow> data_size_t \<Rightarrow> RegressionL2loss" where
  "RegressionL2loss_Init this metadata num_data =
     this\<lparr>num_data' := num_data, label' := label metadata, weights' := weights metadata\<rparr>"

definition RegressionL2loss_GetGradients ::
  "RegressionL2loss \<Rightarrow> double list \<Rightarrow> score_t list \<Rightarrow> score_t list
     \<Rightarrow> score_t list \<times> score_t list" where
  "RegressionL2loss_GetGradients this score gradients hessians =
     (case weights' this of
        None \<Rightarrow>
          for_loop 0 (num_data' this) (\<lambda>i (gradients, hessians).
            let gradients = gradients[nat i :=
                  static_cast_score_t (score ! nat i - label' this ! nat i)];
                hessians = hessians[nat i := 1]
            in (gradients, hessians)) (gradients, hessians)
      | Some w \<Rightarrow>
          for_loop 0 (num_data' this) (\<lambda>i (gradients, hessians).
            let gradients = gradients[nat i :=
                  static_cast_score_t (score ! nat i - label' this ! nat i) * w ! nat i];
                hessians = hessians[nat i := w ! nat i]
            in (gradients, hessians)) (gradients, hessians))"

definition RegressionL2loss_GetName :: "RegressionL2loss \<Rightarrow> string" where
  "RegressionL2loss_GetName this = ''regression''"

subsubsection \<open>RegressionL1loss\<close>

definition RegressionL1loss_new :: "ObjectiveConfig \<Rightarrow> RegressionL1loss" where
  "RegressionL1loss_new config =
     \<lparr>num_data' = undefined, label' = undefined, weights' = undefined,
      eta' = gaussian_eta config\<rparr>"

definition RegressionL1loss_Init ::
  "RegressionL1loss \<Rightarrow> Metadata \<Rightarrow> data_size_t \<Rightarrow> RegressionL1loss" where
  "RegressionL1loss_Init this metadata num_data =
     this\<lparr>num_data' := num_data, label' := label metadata, weights' := weights metadata\<rparr>"

definition RegressionL1loss_GetGradients ::
  "smoother \<Rightarrow> RegressionL1loss \<Rightarrow> double list \<Rightarrow> score_t list \<Rightarrow> score_t list
     \<Rightarrow> score_t list \<times> score_t list" where
  "RegressionL1loss_GetGradients ApproximateHessianWithGaussian this score gradients hessians =
     (case weights' this of
        None \<Rightarrow>
          for_loop 0 (num_data' this) (\<lambda>i (gradients, hessians).
            let diff = score ! nat i - label' this ! nat i;
                gradients = (if diff \<ge> 0 then gradients[nat i := 1]
                             else gradients[nat i := - 1]);
                hessians = hessians[nat i := static_cast_score_t
                  (ApproximateHessianWithGaussian (score ! nat i) (label' this ! nat i)
                     (gradients ! nat i) (eta' this) None)]
            in (gradients, hessians)) (gradients, hessians)
      | Some w \<Rightarrow>
          for_loop 0 (num_data' this) (\<lambda>i (gradients, hessians).
            let diff = score ! nat i - label' this ! nat i;
                gradients = (if diff \<ge> 0 then gradients[nat i := w ! nat i]
                             else gradients[nat i := - (w ! nat i)]);
                hessians = hessians[nat i := static_cast_score_t
                  (ApproximateHessianWithGaussian (score ! nat i) (label' this ! nat i)
                     (gradients ! nat i) (eta' this) (Some (w ! nat i)))]
            in (gradients, hessians)) (gradients, hessians))"

definition RegressionL1loss_GetName :: "RegressionL1loss \<Rightarrow> string" where
  "RegressionL1loss_GetName this = ''regression_l1''"

subsubsection \<open>RegressionHuberLoss\<close>

definition RegressionHuberLoss_new :: "ObjectiveConfig \<Rightarrow> RegressionHuberLoss" where
  "RegressionHuberLoss_new config =
     \<lparr>num_data' = undefined, label' = undefined, weights' = undefined,
      eta' = gaussian_eta config, delta' = huber_delta config\<rparr>"

definition RegressionHuberLoss_Init ::
  "RegressionHuberLoss \<Rightarrow> Metadata \<Rightarrow> data_size_t \<Rightarrow> RegressionHuberLoss" where
  "RegressionHuberLoss_Init this metadata num_data =
     this\<lparr>num_data' := num_data, label' := label metadata, weights' := weights metadata\<rparr>"

definition RegressionHuberLoss_GetGradients ::
  "smoother \<Rightarrow> RegressionHuberLoss \<Rightarrow> double list \<Rightarrow> score_t list \<Rightarrow> score_t list
     \<Rightarrow> score_t list \<times> score_t list" where
  "RegressionHuberLoss_GetGradients ApproximateHessianWithGaussian this score gradients hessians =
     (case weights' this of
        None \<Rightarrow>
          for_loop 0 (num_data' this) (\<lambda>i (gradients, hessians).
            let diff = score ! nat i - label' this ! nat i in
            if \<bar>diff\<bar> \<le> delta' this then
              let gradients = gradients[nat i := static_cast_score_t diff];
                  hessians = hessians[nat i := 1]
              in (gradients, hessians)
            else
              let gradients =
                    (if diff \<ge> 0 then gradients[nat i := static_cast_score_t (delta' this)]
                     else gradients[nat i := static_cast_score_t (- delta' this)]);
                  hessians = hessians[nat i := static_cast_score_t
                    (ApproximateHessianWithGaussian (score ! nat i) (label' this ! nat i)
                       (gradients ! nat i) (eta' this) None)]
              in (gradients, hessians)) (gradients, hessians)
      | Some w \<Rightarrow>
          for_loop 0 (num_data' this) (\<lambda>i (gradients, hessians).
            let diff = score ! nat i - label' this ! nat i in
            if \<bar>diff\<bar> \<le> delta' this then
              let gradients = gradients[nat i := static_cast_score_t (diff * w ! nat i)];
                  hessians = hessians[nat i := w ! nat i]
              in (gradients, hessians)
            else
              let gradients =
                    (if diff \<ge> 0
                     then gradients[nat i := static_cast_score_t (delta' this * w ! nat i)]
                     else gradients[nat i := static_cast_score_t (- delta' this * w ! nat i)]);
                  hessians = hessians[nat i := static_cast_score_t
                    (ApproximateHessianWithGaussian (score ! nat i) (label' this ! nat i)
                       (gradients ! nat i) (eta' this) (Some (w ! nat i)))]
              in (gradients, hessians)) (gradients, hessians))"

definition RegressionHuberLoss_GetName :: "RegressionHuberLoss \<Rightarrow> string" where
  "RegressionHuberLoss_GetName this = ''huber''"

subsubsection \<open>RegressionFairLoss\<close>

definition RegressionFairLoss_new :: "ObjectiveConfig \<Rightarrow> RegressionFairLoss" where
  "RegressionFairLoss_new config =
     \<lparr>num_data' = undefined, label' = undefined, weights' = undefined,
      c' = fair_c config\<rparr>"

definition RegressionFairLoss_Init ::
  "RegressionFairLoss \<Rightarrow> Metadata \<Rightarrow> data_size_t \<Rightarrow> RegressionFairLoss" where
  "RegressionFairLoss_Init this metadata num_data =
     this\<lparr>num_data' := num_data, label' := label metadata, weights' := weights metadata\<rparr>"

definition RegressionFairLoss_GetGradients ::
  "RegressionFairLoss \<Rightarrow> double list \<Rightarrow> score_t list \<Rightarrow> score_t list
     \<Rightarrow> score_t list \<times> score_t list" where
  "RegressionFairLoss_GetGradients this score gradients hessians =
     (case weights' this of
        None \<Rightarrow>
          for_loop 0 (num_data' this) (\<lambda>i (gradients, hessians).
            let x = score ! nat i - label' this ! nat i;
                gradients = gradients[nat i :=
                  static_cast_score_t (c' this * x / (\<bar>x\<bar> + c' this))];
                hessians = hessians[nat i :=
                  static_cast_score_t
                    (c' this * c' this / ((\<bar>x\<bar> + c' this) * (\<bar>x\<bar> + c' this)))]
            in (gradients, hessians)) (gradients, hessians)
      | Some w \<Rightarrow>
          for_loop 0 (num_data' this) (\<lambda>i (gradients, hessians).
            let x = score ! nat i - label' this ! nat i;
                gradients = gradients[nat i :=
                  static_cast_score_t (c' this * x / (\<bar>x\<bar> + c' this) * w ! nat i)];
                hessians = hessians[nat i :=
                  static_cast_score_t
                    (c' this * c' this / ((\<bar>x\<bar> + c' this) * (\<bar>x\<bar> + c' this)) * w ! nat i)]
            in (gradients, hessians)) (gradients, hessians))"

definition RegressionFairLoss_GetName :: "RegressionFairLoss \<Rightarrow> string" where
  "RegressionFairLoss_GetName this = ''fair''"

subsection \<open>The interface ObjectiveFunction\<close>

text \<open>
  The four classes override the virtual member functions of \<^verbatim>\<open>ObjectiveFunction\<close>. An
  object behind that interface is one of the four; a virtual call goes to the override of
  the object's class.
\<close>

datatype ObjectiveFunction =
  L2loss RegressionL2loss
| L1loss RegressionL1loss
| HuberLoss RegressionHuberLoss
| FairLoss RegressionFairLoss

fun Init :: "ObjectiveFunction \<Rightarrow> Metadata \<Rightarrow> data_size_t \<Rightarrow> ObjectiveFunction" where
  "Init (L2loss this) metadata num_data = L2loss (RegressionL2loss_Init this metadata num_data)"
| "Init (L1loss this) metadata num_data = L1loss (RegressionL1loss_Init this metadata num_data)"
| "Init (HuberLoss this) metadata num_data =
     HuberLoss (RegressionHuberLoss_Init this metadata num_data)"
| "Init (FairLoss this) metadata num_data =
     FairLoss (RegressionFairLoss_Init this metadata num_data)"

text \<open>
  A call of \<^verbatim>\<open>GetGradients\<close> through the interface, as a transformer of what the call can
  reach: the object, with the label and weight vectors bound to it, and the caller's two
  output vectors. The four overrides are \<^verbatim>\<open>const\<close> member functions and read
  \<^verbatim>\<open>label_\<close> and \<^verbatim>\<open>weights_\<close> through pointers to \<^verbatim>\<open>const\<close>: the object comes back as it
  was.
\<close>

fun GetGradients ::
  "smoother \<Rightarrow> ObjectiveFunction \<Rightarrow> double list \<Rightarrow> score_t list \<Rightarrow> score_t list
     \<Rightarrow> ObjectiveFunction \<times> score_t list \<times> score_t list" where
  "GetGradients A (L2loss this) score gradients hessians =
     (L2loss this, RegressionL2loss_GetGradients this score gradients hessians)"
| "GetGradients A (L1loss this) score gradients hessians =
     (L1loss this, RegressionL1loss_GetGradients A this score gradients hessians)"
| "GetGradients A (HuberLoss this) score gradients hessians =
     (HuberLoss this, RegressionHuberLoss_GetGradients A this score gradients hessians)"
| "GetGradients A (FairLoss this) score gradients hessians =
     (FairLoss this, RegressionFairLoss_GetGradients this score gradients hessians)"

fun GetName :: "ObjectiveFunction \<Rightarrow> string" where
  "GetName (L2loss this) = RegressionL2loss_GetName this"
| "GetName (L1loss this) = RegressionL1loss_GetName this"
| "GetName (HuberLoss this) = RegressionHuberLoss_GetName this"
| "GetName (FairLoss this) = RegressionFairLoss_GetName this"

subsection \<open>Well-formed calls\<close>

text \<open>
  The code indexes five vectors with \<open>i < num_data_\<close> and checks no bound; reading or
  writing past the end of one is undefined behaviour. A call is within bounds when each
  vector it indexes has at least \<^verbatim>\<open>num_data_\<close> elements. The theorems about the values
  written assume it.
\<close>

definition in_bounds ::
  "data_size_t \<Rightarrow> float list \<Rightarrow> float list option \<Rightarrow> double list \<Rightarrow> score_t list
     \<Rightarrow> score_t list \<Rightarrow> bool" where
  "in_bounds n lbl wts score gradients hessians \<longleftrightarrow>
     nat n \<le> length lbl \<and> (case wts of None \<Rightarrow> True | Some w \<Rightarrow> nat n \<le> length w) \<and>
     nat n \<le> length score \<and> nat n \<le> length gradients \<and> nat n \<le> length hessians"

text \<open>The members every class has, read through the interface.\<close>

fun num_data_of :: "ObjectiveFunction \<Rightarrow> data_size_t" where
  "num_data_of (L2loss this) = num_data' this"
| "num_data_of (L1loss this) = num_data' this"
| "num_data_of (HuberLoss this) = num_data' this"
| "num_data_of (FairLoss this) = num_data' this"

fun label_of :: "ObjectiveFunction \<Rightarrow> float list" where
  "label_of (L2loss this) = label' this"
| "label_of (L1loss this) = label' this"
| "label_of (HuberLoss this) = label' this"
| "label_of (FairLoss this) = label' this"

fun weights_of :: "ObjectiveFunction \<Rightarrow> float list option" where
  "weights_of (L2loss this) = weights' this"
| "weights_of (L1loss this) = weights' this"
| "weights_of (HuberLoss this) = weights' this"
| "weights_of (FairLoss this) = weights' this"

subsection \<open>Floating-point values\<close>

text \<open>
  The floating-point reading. A value of a binary floating-point type is a finite number,
  an infinity with its sign (\<open>True\<close> for the negative one) or NaN. The sign of a zero is
  not kept: the code compares a zero, negates it, takes its absolute value, multiplies by
  it, or divides by it, and the only zero divisors it can meet are the sum
  \<^verbatim>\<open>std::fabs(x) + c_\<close> and its square, which are positive zeros.
\<close>

datatype fp = Num real | Infinity bool | NaN

text \<open>
  A format has a precision in bits and the least and greatest exponents of its normal
  numbers: \<^verbatim>\<open>float\<close> and \<^verbatim>\<open>score_t\<close> are binary32, \<^verbatim>\<open>double\<close> is binary64.
\<close>

record format =
  precision :: nat
  emin :: int
  emax :: int

definition binary32 :: format where
  "binary32 = \<lparr>precision = 24, emin = - 126, emax = 127\<rparr>"

definition binary64 :: format where
  "binary64 = \<lparr>precision = 53, emin = - 1022, emax = 1023\<rparr>"

definition pow2 :: "int \<Rightarrow> real" where
  "pow2 e = (if 0 \<le> e then 2 ^ nat e else 1 / 2 ^ nat (- e))"

text \<open>Rounding to an integer, a tie to the even one.\<close>

definition round_half_even :: "real \<Rightarrow> int" where
  "round_half_even y =
     (let f = \<lfloor>y\<rfloor>; r = y - of_int f in
      if r < 1 / 2 then f else if 1 / 2 < r then f + 1 else if even f then f else f + 1)"

text \<open>
  The spacing of the format's numbers around \<open>x\<close>: \<open>2\<close> to the exponent of \<open>x\<close>, or to
  \<open>emin\<close> for a subnormal \<open>x\<close>, less the fraction bits.
\<close>

definition quantum :: "format \<Rightarrow> real \<Rightarrow> real" where
  "quantum fmt x = pow2 (max \<lfloor>log 2 \<bar>x\<bar>\<rfloor> (emin fmt) - (int (precision fmt) - 1))"

text \<open>The multiple of the spacing nearest to \<open>x\<close>.\<close>

definition round_real :: "format \<Rightarrow> real \<Rightarrow> real" where
  "round_real fmt x = quantum fmt x * of_int (round_half_even (x / quantum fmt x))"

text \<open>
  Rounding a real number into a format, to nearest and a tie to even: the result of every
  operation below. A result of magnitude \<open>2 ^ (emax + 1)\<close> or more overflows to an infinity;
  a result below half the least subnormal number becomes zero.
\<close>

definition round_nearest :: "format \<Rightarrow> real \<Rightarrow> fp" where
  "round_nearest fmt x =
     (if x = 0 then Num 0
      else let r = round_real fmt x in
           if pow2 (emax fmt + 1) \<le> \<bar>r\<bar> then Infinity (r < 0) else Num r)"

text \<open>A number is exact in a format when rounding leaves it as it is.\<close>

definition exact :: "format \<Rightarrow> real \<Rightarrow> bool" where
  "exact fmt x \<longleftrightarrow> round_nearest fmt x = Num x"

text \<open>Unary minus and \<^verbatim>\<open>std::fabs\<close>, \<^verbatim>\<open>std::abs\<close>.\<close>

fun fp_neg :: "fp \<Rightarrow> fp" where
  "fp_neg (Num a) = Num (- a)"
| "fp_neg (Infinity s) = Infinity (\<not> s)"
| "fp_neg NaN = NaN"


text \<open>
  The four operations in a format. The operands of a C++ operation are converted to the
  wider of their two types first, which changes no value, and the operation is done in
  that type: it is read here with no excess precision and no contraction of a product and
  a sum into one operation.
\<close>

fun fp_add :: "format \<Rightarrow> fp \<Rightarrow> fp \<Rightarrow> fp" where
  "fp_add fmt (Num a) (Num b) = round_nearest fmt (a + b)"
| "fp_add fmt (Num a) (Infinity t) = Infinity t"
| "fp_add fmt (Infinity s) (Num b) = Infinity s"
| "fp_add fmt (Infinity s) (Infinity t) = (if s = t then Infinity s else NaN)"
| "fp_add fmt NaN y = NaN"
| "fp_add fmt x NaN = NaN"

definition fp_sub :: "format \<Rightarrow> fp \<Rightarrow> fp \<Rightarrow> fp" where
  "fp_sub fmt x y = fp_add fmt x (fp_neg y)"

fun fp_mul :: "format \<Rightarrow> fp \<Rightarrow> fp \<Rightarrow> fp" where
  "fp_mul fmt (Num a) (Num b) = round_nearest fmt (a * b)"
| "fp_mul fmt (Num a) (Infinity t) = (if a = 0 then NaN else Infinity (t \<noteq> (a < 0)))"
| "fp_mul fmt (Infinity s) (Num b) = (if b = 0 then NaN else Infinity (s \<noteq> (b < 0)))"
| "fp_mul fmt (Infinity s) (Infinity t) = Infinity (s \<noteq> t)"
| "fp_mul fmt NaN y = NaN"
| "fp_mul fmt x NaN = NaN"


text \<open>\<open>x <= y\<close>; \<open>x >= y\<close> is \<open>fp_le y x\<close>. A comparison with NaN is false.\<close>

fun fp_le :: "fp \<Rightarrow> fp \<Rightarrow> bool" where
  "fp_le (Num a) (Num b) = (a \<le> b)"
| "fp_le (Num a) (Infinity t) = (\<not> t)"
| "fp_le (Infinity s) (Num b) = s"
| "fp_le (Infinity s) (Infinity t) = (s \<or> \<not> t)"
| "fp_le NaN y = False"
| "fp_le x NaN = False"

text \<open>\<^verbatim>\<open>static_cast<score_t>(x)\<close> of a double: rounding into binary32.\<close>

fun static_cast_score_t_fp :: "fp \<Rightarrow> fp" where
  "static_cast_score_t_fp (Num a) = round_nearest binary32 a"
| "static_cast_score_t_fp (Infinity s) = Infinity s"
| "static_cast_score_t_fp NaN = NaN"

subsection \<open>The classes on floating-point values\<close>

text \<open>
  The members and \<^verbatim>\<open>GetGradients\<close> of the squared-error, Huber and Fair classes again,
  on floating-point values: the same loops, each operation in the type the C++ gives it.
  \<^verbatim>\<open>score\<close>, \<^verbatim>\<open>delta_\<close>, \<^verbatim>\<open>eta_\<close> and \<^verbatim>\<open>c_\<close> are doubles; \<^verbatim>\<open>label_\<close>, \<^verbatim>\<open>weights_\<close>,
  \<^verbatim>\<open>gradients\<close> and \<^verbatim>\<open>hessians\<close> are floats; the literals \<^verbatim>\<open>1.0f\<close> and \<^verbatim>\<open>0.0f\<close> are
  \<open>Num 1\<close> and \<open>Num 0\<close>.
\<close>

record RegressionL2loss_fp =
  num_data_fp :: data_size_t
  label_fp :: "fp list"
  weights_fp :: "fp list option"



text \<open>
  \<^verbatim>\<open>static_cast<score_t>(score[i] - label_[i])\<close> is a double difference rounded to float;
  in the weighted loop the product of that float and \<^verbatim>\<open>weights_[i]\<close> is a float product.
\<close>

definition RegressionL2loss_GetGradients_fp ::
  "RegressionL2loss_fp \<Rightarrow> fp list \<Rightarrow> fp list \<Rightarrow> fp list \<Rightarrow> fp list \<times> fp list" where
  "RegressionL2loss_GetGradients_fp this score gradients hessians =
     (case weights_fp this of
        None \<Rightarrow>
          for_loop 0 (num_data_fp this) (\<lambda>i (gradients, hessians).
            let gradients = gradients[nat i :=
                  static_cast_score_t_fp (fp_sub binary64 (score ! nat i) (label_fp this ! nat i))];
                hessians = hessians[nat i := Num 1]
            in (gradients, hessians)) (gradients, hessians)
      | Some w \<Rightarrow>
          for_loop 0 (num_data_fp this) (\<lambda>i (gradients, hessians).
            let gradients = gradients[nat i :=
                  fp_mul binary32
                    (static_cast_score_t_fp (fp_sub binary64 (score ! nat i) (label_fp this ! nat i)))
                    (w ! nat i)];
                hessians = hessians[nat i := w ! nat i]
            in (gradients, hessians)) (gradients, hessians))"




text \<open>A call within bounds, as for the exact reading.\<close>

definition in_bounds_fp ::
  "data_size_t \<Rightarrow> fp list \<Rightarrow> fp list option \<Rightarrow> fp list \<Rightarrow> fp list \<Rightarrow> fp list \<Rightarrow> bool" where
  "in_bounds_fp n lbl wts score gradients hessians \<longleftrightarrow>
     nat n \<le> length lbl \<and> (case wts of None \<Rightarrow> True | Some w \<Rightarrow> nat n \<le> length w) \<and>
     nat n \<le> length score \<and> nat n \<le> length gradients \<and> nat n \<le> length hessians"

section \<open>The loop writes index by index\<close>

lemma for_loop_writes:
  assumes body: "\<And>i g h. 0 \<le> i \<Longrightarrow> i < n \<Longrightarrow> nat i < length g \<Longrightarrow> nat i < length h \<Longrightarrow>
                   body i (g, h) = (g[nat i := G i], h[nat i := H i])"
    and "0 \<le> i0" "nat n \<le> length g" "nat n \<le> length h"
  shows "for_loop i0 n body (g, h) =
           (map (\<lambda>k. if nat i0 \<le> k \<and> k < nat n then G (int k) else g ! k) [0..<length g],
            map (\<lambda>k. if nat i0 \<le> k \<and> k < nat n then H (int k) else h ! k) [0..<length h])"
  using assms(2-)
proof (induction "nat (n - i0)" arbitrary: i0 g h)
  case 0
  then have "\<not> i0 < n" by simp
  then show ?case
    by (subst for_loop.simps) (auto intro!: nth_equalityI)
next
  case (Suc d)
  then have lt: "i0 < n" by linarith
  have in_g: "nat i0 < length g" and in_h: "nat i0 < length h"
    using lt Suc.prems by linarith+
  have step: "body i0 (g, h) = (g[nat i0 := G i0], h[nat i0 := H i0])"
    using body [OF Suc.prems(1) lt in_g in_h] .
  have d: "d = nat (n - (i0 + 1))" using Suc.hyps(2) by linarith
  have IH: "for_loop (i0 + 1) n body (g[nat i0 := G i0], h[nat i0 := H i0]) =
           (map (\<lambda>k. if nat (i0 + 1) \<le> k \<and> k < nat n then G (int k)
                      else g[nat i0 := G i0] ! k) [0..<length (g[nat i0 := G i0])],
            map (\<lambda>k. if nat (i0 + 1) \<le> k \<and> k < nat n then H (int k)
                      else h[nat i0 := H i0] ! k) [0..<length (h[nat i0 := H i0])])"
    using Suc.hyps(1) [OF d] Suc.prems by simp
  have "for_loop i0 n body (g, h) = for_loop (i0 + 1) n body (body i0 (g, h))"
    using lt by (subst for_loop.simps) simp
  also have "\<dots> = for_loop (i0 + 1) n body (g[nat i0 := G i0], h[nat i0 := H i0])"
    by (simp only: step)
  finally show ?case
    using Suc.prems(1) lt in_g in_h
    by (auto simp: IH nth_list_update intro!: nth_equalityI)
qed

section \<open>What each GetGradients returns\<close>

text \<open>
  In the exact reading, within bounds, each \<^verbatim>\<open>GetGradients\<close> returns the two vectors it
  was given with the first \<^verbatim>\<open>num_data_\<close> elements replaced, element \<open>k\<close> by the value the
  loop body computes at \<open>i = k\<close>.
\<close>

lemma RegressionL2loss_GetGradients_eq:
  assumes "in_bounds (num_data' this) (label' this) (weights' this) score g h"
  shows "RegressionL2loss_GetGradients this score g h =
    (map (\<lambda>k. if k < nat (num_data' this)
                then (case weights' this of None \<Rightarrow> score ! k - label' this ! k
                      | Some w \<Rightarrow> (score ! k - label' this ! k) * w ! k)
                else g ! k) [0..<length g],
     map (\<lambda>k. if k < nat (num_data' this)
                then (case weights' this of None \<Rightarrow> 1 | Some w \<Rightarrow> w ! k)
                else h ! k) [0..<length h])"
proof (cases "weights' this")
  case None
  show ?thesis
    unfolding RegressionL2loss_GetGradients_def None option.case
    by (subst for_loop_writes
          [where G = "\<lambda>i. score ! nat i - label' this ! nat i" and H = "\<lambda>i. 1"])
       (use assms in \<open>simp_all add: in_bounds_def static_cast_score_t_def\<close>)
next
  case (Some w)
  show ?thesis
    unfolding RegressionL2loss_GetGradients_def Some option.case
    by (subst for_loop_writes
          [where G = "\<lambda>i. (score ! nat i - label' this ! nat i) * w ! nat i"
             and H = "\<lambda>i. w ! nat i"])
       (use assms in \<open>simp_all add: in_bounds_def static_cast_score_t_def\<close>)
qed

lemma RegressionL1loss_GetGradients_eq:
  assumes "in_bounds (num_data' this) (label' this) (weights' this) score g h"
  shows "RegressionL1loss_GetGradients A this score g h =
    (map (\<lambda>k. if k < nat (num_data' this)
                then (case weights' this of
                        None \<Rightarrow> if score ! k - label' this ! k \<ge> 0 then 1 else - 1
                      | Some w \<Rightarrow> if score ! k - label' this ! k \<ge> 0 then w ! k else - (w ! k))
                else g ! k) [0..<length g],
     map (\<lambda>k. if k < nat (num_data' this)
                then (case weights' this of
                        None \<Rightarrow> A (score ! k) (label' this ! k)
                                 (if score ! k - label' this ! k \<ge> 0 then 1 else - 1)
                                 (eta' this) None
                      | Some w \<Rightarrow> A (score ! k) (label' this ! k)
                                 (if score ! k - label' this ! k \<ge> 0 then w ! k else - (w ! k))
                                 (eta' this) (Some (w ! k)))
                else h ! k) [0..<length h])"
proof (cases "weights' this")
  case None
  show ?thesis
    unfolding RegressionL1loss_GetGradients_def None option.case
    by (subst for_loop_writes
          [where G = "\<lambda>i. if score ! nat i - label' this ! nat i \<ge> 0 then 1 else - 1"
             and H = "\<lambda>i. A (score ! nat i) (label' this ! nat i)
                        (if score ! nat i - label' this ! nat i \<ge> 0 then 1 else - 1)
                        (eta' this) None"])
       (use assms in \<open>simp_all add: in_bounds_def static_cast_score_t_def Let_def\<close>)
next
  case (Some w)
  show ?thesis
    unfolding RegressionL1loss_GetGradients_def Some option.case
    by (subst for_loop_writes
          [where G = "\<lambda>i. if score ! nat i - label' this ! nat i \<ge> 0
                           then w ! nat i else - (w ! nat i)"
             and H = "\<lambda>i. A (score ! nat i) (label' this ! nat i)
                        (if score ! nat i - label' this ! nat i \<ge> 0
                         then w ! nat i else - (w ! nat i))
                        (eta' this) (Some (w ! nat i))"])
       (use assms in \<open>simp_all add: in_bounds_def static_cast_score_t_def Let_def\<close>)
qed

lemma RegressionHuberLoss_GetGradients_eq:
  assumes "in_bounds (num_data' this) (label' this) (weights' this) score g h"
  shows "RegressionHuberLoss_GetGradients A this score g h =
    (map (\<lambda>k. if k < nat (num_data' this)
                then (case weights' this of
                        None \<Rightarrow>
                          if \<bar>score ! k - label' this ! k\<bar> \<le> delta' this
                          then score ! k - label' this ! k
                          else if score ! k - label' this ! k \<ge> 0
                               then delta' this else - delta' this
                      | Some w \<Rightarrow>
                          if \<bar>score ! k - label' this ! k\<bar> \<le> delta' this
                          then (score ! k - label' this ! k) * w ! k
                          else if score ! k - label' this ! k \<ge> 0
                               then delta' this * w ! k else - delta' this * w ! k)
                else g ! k) [0..<length g],
     map (\<lambda>k. if k < nat (num_data' this)
                then (case weights' this of
                        None \<Rightarrow>
                          if \<bar>score ! k - label' this ! k\<bar> \<le> delta' this then 1
                          else A (score ! k) (label' this ! k)
                                 (if score ! k - label' this ! k \<ge> 0
                                  then delta' this else - delta' this)
                                 (eta' this) None
                      | Some w \<Rightarrow>
                          if \<bar>score ! k - label' this ! k\<bar> \<le> delta' this then w ! k
                          else A (score ! k) (label' this ! k)
                                 (if score ! k - label' this ! k \<ge> 0
                                  then delta' this * w ! k else - delta' this * w ! k)
                                 (eta' this) (Some (w ! k)))
                else h ! k) [0..<length h])"
proof (cases "weights' this")
  case None
  show ?thesis
    unfolding RegressionHuberLoss_GetGradients_def None option.case
    by (subst for_loop_writes
          [where G = "\<lambda>i. if \<bar>score ! nat i - label' this ! nat i\<bar> \<le> delta' this
                           then score ! nat i - label' this ! nat i
                           else if score ! nat i - label' this ! nat i \<ge> 0
                                then delta' this else - delta' this"
             and H = "\<lambda>i. if \<bar>score ! nat i - label' this ! nat i\<bar> \<le> delta' this then 1
                           else A (score ! nat i) (label' this ! nat i)
                                  (if score ! nat i - label' this ! nat i \<ge> 0
                                   then delta' this else - delta' this)
                                  (eta' this) None"])
       (use assms in \<open>simp_all add: in_bounds_def static_cast_score_t_def Let_def\<close>)
next
  case (Some w)
  show ?thesis
    unfolding RegressionHuberLoss_GetGradients_def Some option.case
    by (subst for_loop_writes
          [where G = "\<lambda>i. if \<bar>score ! nat i - label' this ! nat i\<bar> \<le> delta' this
                           then (score ! nat i - label' this ! nat i) * w ! nat i
                           else if score ! nat i - label' this ! nat i \<ge> 0
                                then delta' this * w ! nat i else - delta' this * w ! nat i"
             and H = "\<lambda>i. if \<bar>score ! nat i - label' this ! nat i\<bar> \<le> delta' this
                           then w ! nat i
                           else A (score ! nat i) (label' this ! nat i)
                                  (if score ! nat i - label' this ! nat i \<ge> 0
                                   then delta' this * w ! nat i else - delta' this * w ! nat i)
                                  (eta' this) (Some (w ! nat i))"])
       (use assms in \<open>simp_all add: in_bounds_def static_cast_score_t_def Let_def\<close>)
qed

lemma RegressionFairLoss_GetGradients_eq:
  assumes "in_bounds (num_data' this) (label' this) (weights' this) score g h"
  shows "RegressionFairLoss_GetGradients this score g h =
    (map (\<lambda>k. if k < nat (num_data' this)
                then (case weights' this of
                        None \<Rightarrow> c' this * (score ! k - label' this ! k)
                                 / (\<bar>score ! k - label' this ! k\<bar> + c' this)
                      | Some w \<Rightarrow> c' this * (score ! k - label' this ! k)
                                 / (\<bar>score ! k - label' this ! k\<bar> + c' this) * w ! k)
                else g ! k) [0..<length g],
     map (\<lambda>k. if k < nat (num_data' this)
                then (case weights' this of
                        None \<Rightarrow> c' this * c' this
                                 / ((\<bar>score ! k - label' this ! k\<bar> + c' this)
                                    * (\<bar>score ! k - label' this ! k\<bar> + c' this))
                      | Some w \<Rightarrow> c' this * c' this
                                 / ((\<bar>score ! k - label' this ! k\<bar> + c' this)
                                    * (\<bar>score ! k - label' this ! k\<bar> + c' this)) * w ! k)
                else h ! k) [0..<length h])"
proof (cases "weights' this")
  case None
  show ?thesis
    unfolding RegressionFairLoss_GetGradients_def None option.case
    by (subst for_loop_writes
          [where G = "\<lambda>i. c' this * (score ! nat i - label' this ! nat i)
                             / (\<bar>score ! nat i - label' this ! nat i\<bar> + c' this)"
             and H = "\<lambda>i. c' this * c' this
                             / ((\<bar>score ! nat i - label' this ! nat i\<bar> + c' this)
                                * (\<bar>score ! nat i - label' this ! nat i\<bar> + c' this))"])
       (use assms in \<open>simp_all add: in_bounds_def static_cast_score_t_def Let_def\<close>)
next
  case (Some w)
  show ?thesis
    unfolding RegressionFairLoss_GetGradients_def Some option.case
    by (subst for_loop_writes
          [where G = "\<lambda>i. c' this * (score ! nat i - label' this ! nat i)
                             / (\<bar>score ! nat i - label' this ! nat i\<bar> + c' this) * w ! nat i"
             and H = "\<lambda>i. c' this * c' this
                             / ((\<bar>score ! nat i - label' this ! nat i\<bar> + c' this)
                                * (\<bar>score ! nat i - label' this ! nat i\<bar> + c' this)) * w ! nat i"])
       (use assms in \<open>simp_all add: in_bounds_def static_cast_score_t_def Let_def\<close>)
qed

section \<open>Absolute error\<close>

text \<open>
  Claim C3, amended. \<^verbatim>\<open>RegressionL1loss::GetGradients\<close> at an index \<open>i\<close> below
  \<^verbatim>\<open>num_data_\<close>, with the residual \<open>d = score[i] - label[i]\<close>: the gradient is \<open>1\<close> if
  \<open>d \<ge> 0\<close> and \<open>-1\<close> otherwise with no weight vector bound, and \<open>weight[i]\<close> if \<open>d \<ge> 0\<close>
  and \<open>- weight[i]\<close> otherwise with one bound; at \<open>d = 0\<close> it is the value of the branch
  \<open>d \<ge> 0\<close>. Its absolute value is \<open>1\<close>, or \<open>\<bar>weight[i]\<bar>\<close>, whatever the size of the
  residual; that is \<open>weight[i]\<close> when \<open>weight[i] \<ge> 0\<close>.
\<close>

theorem RegressionL1loss_GetGradients_values:
  assumes "in_bounds (num_data' this) (label' this) (weights' this) score gradients hessians"
    and "i < nat (num_data' this)"
  shows "fst (RegressionL1loss_GetGradients A this score gradients hessians) ! i =
           (case weights' this of
              None \<Rightarrow> if 0 \<le> score ! i - label' this ! i then 1 else - 1
            | Some w \<Rightarrow> if 0 \<le> score ! i - label' this ! i then w ! i else - (w ! i)) \<and>
         \<bar>fst (RegressionL1loss_GetGradients A this score gradients hessians) ! i\<bar> =
           (case weights' this of None \<Rightarrow> 1 | Some w \<Rightarrow> \<bar>w ! i\<bar>) \<and>
         (score ! i - label' this ! i = 0 \<longrightarrow>
            fst (RegressionL1loss_GetGradients A this score gradients hessians) ! i =
              (case weights' this of None \<Rightarrow> 1 | Some w \<Rightarrow> w ! i)) \<and>
         (\<forall>w. weights' this = Some w \<and> 0 \<le> w ! i \<longrightarrow>
            \<bar>fst (RegressionL1loss_GetGradients A this score gradients hessians) ! i\<bar> = w ! i)"
proof -
  have len: "i < length gradients" "i < length hessians"
    using assms by (simp_all add: in_bounds_def)
  show ?thesis
    using assms(2) len
    by (simp add: RegressionL1loss_GetGradients_eq [OF assms(1)] split: option.split)
qed

theorem RegressionL1loss_GetGradients_values_witness:
  "in_bounds 2 [1, 5] (Some [2, - 4]) [1, 1] [0, 0] [0, 0] \<and> (0::nat) < nat 2 \<and> (1::nat) < nat 2 \<and>
   fst (RegressionL1loss_GetGradients (\<lambda>y t g eta w. 5)
          (RegressionL1loss_Init
             (RegressionL1loss_new \<lparr>gaussian_eta = 1, huber_delta = 1, fair_c = 1\<rparr>)
             \<lparr>label = [1, 5], weights = Some [2, - 4]\<rparr> 2)
          [1, 1] [0, 0] [0, 0]) ! 0 = 2 \<and>
   fst (RegressionL1loss_GetGradients (\<lambda>y t g eta w. 5)
          (RegressionL1loss_Init
             (RegressionL1loss_new \<lparr>gaussian_eta = 1, huber_delta = 1, fair_c = 1\<rparr>)
             \<lparr>label = [1, 5], weights = Some [2, - 4]\<rparr> 2)
          [1, 1] [0, 0] [0, 0]) ! 1 = 4"
  using RegressionL1loss_GetGradients_values
    [of "RegressionL1loss_Init
           (RegressionL1loss_new \<lparr>gaussian_eta = 1, huber_delta = 1, fair_c = 1\<rparr>)
           \<lparr>label = [1, 5], weights = Some [2, - 4]\<rparr> 2"
        "[1, 1]" "[0, 0]" "[0, 0]" 0 "\<lambda>y t g eta w. 5"]
    RegressionL1loss_GetGradients_values
    [of "RegressionL1loss_Init
           (RegressionL1loss_new \<lparr>gaussian_eta = 1, huber_delta = 1, fair_c = 1\<rparr>)
           \<lparr>label = [1, 5], weights = Some [2, - 4]\<rparr> 2"
        "[1, 1]" "[0, 0]" "[0, 0]" 1 "\<lambda>y t g eta w. 5"]
  by (simp add: in_bounds_def RegressionL1loss_Init_def RegressionL1loss_new_def)

text \<open>
  The claim as it was stated has \<open>\<bar>gradients[i]\<bar> = weight[i]\<close> for every bound weight. The
  code checks no sign of the weights: with the weight \<open>-2\<close>, the label \<open>1\<close> and the score
  \<open>3\<close> the residual is \<open>2\<close>, the gradient written is \<open>-2\<close>, and its absolute value \<open>2\<close> is
  not the weight.
\<close>

theorem RegressionL1loss_abs_gradient_counterexample:
  "\<bar>fst (RegressionL1loss_GetGradients (\<lambda>y t g eta w. 5)
           (RegressionL1loss_Init
              (RegressionL1loss_new \<lparr>gaussian_eta = 1, huber_delta = 1, fair_c = 1\<rparr>)
              \<lparr>label = [1], weights = Some [- 2]\<rparr> 1)
           [3] [0] [0]) ! 0\<bar> \<noteq> [- 2] ! 0"
  by (simp add: RegressionL1loss_GetGradients_def RegressionL1loss_Init_def
        RegressionL1loss_new_def for_loop.simps)

section \<open>The boundary of the Huber regions\<close>





section \<open>Every class, through the interface\<close>

lemma members_of_Init [simp]:
  "num_data_of (Init obj metadata num_data) = num_data"
  "label_of (Init obj metadata num_data) = label metadata"
  "weights_of (Init obj metadata num_data) = weights metadata"
  by (cases obj;
      simp add: RegressionL2loss_Init_def RegressionL1loss_Init_def
        RegressionHuberLoss_Init_def RegressionFairLoss_Init_def)+

lemma rewritten_again:
  "map (\<lambda>k. if k < n then F k else map (\<lambda>k. if k < n then F k else g ! k) [0..<length g] ! k)
     [0..<length (map (\<lambda>k. if k < n then F k else g ! k) [0..<length g])] =
   map (\<lambda>k. if k < n then F k else g ! k) [0..<length g]"
  by (rule nth_equalityI) simp_all

lemma in_bounds_outputs:
  "in_bounds n lbl wts score g h \<Longrightarrow> length g' = length g \<Longrightarrow> length h' = length h \<Longrightarrow>
   in_bounds n lbl wts score g' h'"
  by (simp add: in_bounds_def)

lemma RegressionL2loss_GetGradients_again:
  assumes "in_bounds (num_data' this) (label' this) (weights' this) score g h"
  shows "RegressionL2loss_GetGradients this score
           (fst (RegressionL2loss_GetGradients this score g h))
           (snd (RegressionL2loss_GetGradients this score g h)) =
         RegressionL2loss_GetGradients this score g h"
proof -
  note eq = RegressionL2loss_GetGradients_eq
  have b: "in_bounds (num_data' this) (label' this) (weights' this) score
             (fst (RegressionL2loss_GetGradients this score g h))
             (snd (RegressionL2loss_GetGradients this score g h))"
    using assms by (rule in_bounds_outputs) (simp_all add: eq [OF assms])
  show ?thesis
    by (subst eq [OF b]) (simp add: eq [OF assms] rewritten_again)
qed

lemma RegressionL1loss_GetGradients_again:
  assumes "in_bounds (num_data' this) (label' this) (weights' this) score g h"
  shows "RegressionL1loss_GetGradients A this score
           (fst (RegressionL1loss_GetGradients A this score g h))
           (snd (RegressionL1loss_GetGradients A this score g h)) =
         RegressionL1loss_GetGradients A this score g h"
proof -
  note eq = RegressionL1loss_GetGradients_eq
  have b: "in_bounds (num_data' this) (label' this) (weights' this) score
             (fst (RegressionL1loss_GetGradients A this score g h))
             (snd (RegressionL1loss_GetGradients A this score g h))"
    using assms by (rule in_bounds_outputs) (simp_all add: eq [OF assms])
  show ?thesis
    by (subst eq [OF b]) (simp add: eq [OF assms] rewritten_again)
qed

lemma RegressionHuberLoss_GetGradients_again:
  assumes "in_bounds (num_data' this) (label' this) (weights' this) score g h"
  shows "RegressionHuberLoss_GetGradients A this score
           (fst (RegressionHuberLoss_GetGradients A this score g h))
           (snd (RegressionHuberLoss_GetGradients A this score g h)) =
         RegressionHuberLoss_GetGradients A this score g h"
proof -
  note eq = RegressionHuberLoss_GetGradients_eq
  have b: "in_bounds (num_data' this) (label' this) (weights' this) score
             (fst (RegressionHuberLoss_GetGradients A this score g h))
             (snd (RegressionHuberLoss_GetGradients A this score g h))"
    using assms by (rule in_bounds_outputs) (simp_all add: eq [OF assms])
  show ?thesis
    by (subst eq [OF b]) (simp add: eq [OF assms] rewritten_again)
qed

lemma RegressionFairLoss_GetGradients_again:
  assumes "in_bounds (num_data' this) (label' this) (weights' this) score g h"
  shows "RegressionFairLoss_GetGradients this score
           (fst (RegressionFairLoss_GetGradients this score g h))
           (snd (RegressionFairLoss_GetGradients this score g h)) =
         RegressionFairLoss_GetGradients this score g h"
proof -
  note eq = RegressionFairLoss_GetGradients_eq
  have b: "in_bounds (num_data' this) (label' this) (weights' this) score
             (fst (RegressionFairLoss_GetGradients this score g h))
             (snd (RegressionFairLoss_GetGradients this score g h))"
    using assms by (rule in_bounds_outputs) (simp_all add: eq [OF assms])
  show ?thesis
    by (subst eq [OF b]) (simp add: eq [OF assms] rewritten_again)
qed

lemma take_rewritten:
  "n \<le> length g \<Longrightarrow>
   take n (map (\<lambda>k. if k < n then F k else g ! k) [0..<length g]) = map F [0..<n]"
  by (rule nth_equalityI) simp_all

text \<open>
  Claim C7. For each of the four classes, a call of \<^verbatim>\<open>GetGradients\<close> within bounds
  writes both outputs at every index \<open>i\<close> below \<^verbatim>\<open>num_data_\<close>, and what it writes there
  depends only on \<open>score[i]\<close>, \<open>label[i]\<close>, \<open>weight[i]\<close> (or the absence of weights) and the
  configuration the object was constructed with. Take one object and bind it by \<^verbatim>\<open>Init\<close>
  to two data sets, and call \<^verbatim>\<open>GetGradients\<close> on each with its own scores and its own
  output vectors: if the two calls agree at index \<open>i\<close> on the score, the label and the
  weight, they write the same gradient and the same hessian at \<open>i\<close>, whatever the other
  elements are and whatever the output vectors held before. The output vectors keep
  their lengths.
\<close>

theorem GetGradients_pointwise:
  assumes "in_bounds num_data (label metadata) (weights metadata) score gradients hessians"
    and "in_bounds num_data2 (label metadata2) (weights metadata2) score2 gradients2 hessians2"
    and "i < nat num_data" and "i < nat num_data2"
    and "score ! i = score2 ! i"
    and "label metadata ! i = label metadata2 ! i"
    and "map_option (\<lambda>w. w ! i) (weights metadata) = map_option (\<lambda>w. w ! i) (weights metadata2)"
  shows "fst (snd (GetGradients A (Init obj metadata num_data) score gradients hessians)) ! i =
         fst (snd (GetGradients A (Init obj metadata2 num_data2) score2 gradients2 hessians2)) ! i \<and>
         snd (snd (GetGradients A (Init obj metadata num_data) score gradients hessians)) ! i =
         snd (snd (GetGradients A (Init obj metadata2 num_data2) score2 gradients2 hessians2)) ! i \<and>
         length (fst (snd (GetGradients A (Init obj metadata num_data) score gradients hessians)))
           = length gradients \<and>
         length (snd (snd (GetGradients A (Init obj metadata num_data) score gradients hessians)))
           = length hessians"
proof -
  have len: "i < length gradients" "i < length hessians"
            "i < length gradients2" "i < length hessians2"
    using assms(1-4) by (simp_all add: in_bounds_def)
  show ?thesis
  proof (cases obj)
    case (L2loss this)
    define t1 where "t1 = RegressionL2loss_Init this metadata num_data"
    define t2 where "t2 = RegressionL2loss_Init this metadata2 num_data2"
    have m: "num_data' t1 = num_data" "label' t1 = label metadata"
        "weights' t1 = weights metadata"
        "num_data' t2 = num_data2" "label' t2 = label metadata2"
        "weights' t2 = weights metadata2"
      by (simp_all add: t1_def t2_def RegressionL2loss_Init_def)
    have b: "in_bounds (num_data' t1) (label' t1) (weights' t1) score gradients hessians"
      and b2: "in_bounds (num_data' t2) (label' t2) (weights' t2) score2 gradients2 hessians2"
      using assms(1,2) by (simp_all add: m)
    have o: "Init obj metadata num_data = L2loss t1" "Init obj metadata2 num_data2 = L2loss t2"
      by (simp_all add: L2loss t1_def t2_def)
    show ?thesis
      unfolding o GetGradients.simps snd_conv
                RegressionL2loss_GetGradients_eq [OF b] RegressionL2loss_GetGradients_eq [OF b2]
      using assms(3-) len
      by (auto simp add: m split: option.splits)
  next
    case (L1loss this)
    define t1 where "t1 = RegressionL1loss_Init this metadata num_data"
    define t2 where "t2 = RegressionL1loss_Init this metadata2 num_data2"
    have m: "num_data' t1 = num_data" "label' t1 = label metadata"
        "weights' t1 = weights metadata"
        "num_data' t2 = num_data2" "label' t2 = label metadata2"
        "weights' t2 = weights metadata2" "eta' t1 = eta' this" "eta' t2 = eta' this"
      by (simp_all add: t1_def t2_def RegressionL1loss_Init_def)
    have b: "in_bounds (num_data' t1) (label' t1) (weights' t1) score gradients hessians"
      and b2: "in_bounds (num_data' t2) (label' t2) (weights' t2) score2 gradients2 hessians2"
      using assms(1,2) by (simp_all add: m)
    have o: "Init obj metadata num_data = L1loss t1" "Init obj metadata2 num_data2 = L1loss t2"
      by (simp_all add: L1loss t1_def t2_def)
    show ?thesis
      unfolding o GetGradients.simps snd_conv
                RegressionL1loss_GetGradients_eq [OF b] RegressionL1loss_GetGradients_eq [OF b2]
      using assms(3-) len
      by (auto simp add: m split: option.splits)
  next
    case (HuberLoss this)
    define t1 where "t1 = RegressionHuberLoss_Init this metadata num_data"
    define t2 where "t2 = RegressionHuberLoss_Init this metadata2 num_data2"
    have m: "num_data' t1 = num_data" "label' t1 = label metadata"
        "weights' t1 = weights metadata"
        "num_data' t2 = num_data2" "label' t2 = label metadata2"
        "weights' t2 = weights metadata2" "eta' t1 = eta' this" "eta' t2 = eta' this" "delta' t1 = delta' this" "delta' t2 = delta' this"
      by (simp_all add: t1_def t2_def RegressionHuberLoss_Init_def)
    have b: "in_bounds (num_data' t1) (label' t1) (weights' t1) score gradients hessians"
      and b2: "in_bounds (num_data' t2) (label' t2) (weights' t2) score2 gradients2 hessians2"
      using assms(1,2) by (simp_all add: m)
    have o: "Init obj metadata num_data = HuberLoss t1" "Init obj metadata2 num_data2 = HuberLoss t2"
      by (simp_all add: HuberLoss t1_def t2_def)
    show ?thesis
      unfolding o GetGradients.simps snd_conv
                RegressionHuberLoss_GetGradients_eq [OF b] RegressionHuberLoss_GetGradients_eq [OF b2]
      using assms(3-) len
      by (auto simp add: m split: option.splits)
  next
    case (FairLoss this)
    define t1 where "t1 = RegressionFairLoss_Init this metadata num_data"
    define t2 where "t2 = RegressionFairLoss_Init this metadata2 num_data2"
    have m: "num_data' t1 = num_data" "label' t1 = label metadata"
        "weights' t1 = weights metadata"
        "num_data' t2 = num_data2" "label' t2 = label metadata2"
        "weights' t2 = weights metadata2" "c' t1 = c' this" "c' t2 = c' this"
      by (simp_all add: t1_def t2_def RegressionFairLoss_Init_def)
    have b: "in_bounds (num_data' t1) (label' t1) (weights' t1) score gradients hessians"
      and b2: "in_bounds (num_data' t2) (label' t2) (weights' t2) score2 gradients2 hessians2"
      using assms(1,2) by (simp_all add: m)
    have o: "Init obj metadata num_data = FairLoss t1" "Init obj metadata2 num_data2 = FairLoss t2"
      by (simp_all add: FairLoss t1_def t2_def)
    show ?thesis
      unfolding o GetGradients.simps snd_conv
                RegressionFairLoss_GetGradients_eq [OF b] RegressionFairLoss_GetGradients_eq [OF b2]
      using assms(3-) len
      by (auto simp add: m split: option.splits)
  qed
qed


theorem GetGradients_pointwise_witness:
  "in_bounds 2 [1, 5] (Some [2, 3]) [1, 8] [7, 7] [9, 9] \<and>
   in_bounds 3 [4, 5, 6] (Some [1, 3, 1]) [0, 8, 0] [0, 0, 0, 0] [1, 1, 1] \<and>
   (1::nat) < nat 2 \<and> (1::nat) < nat 3 \<and> [1, 8] ! 1 = [0, 8, 0::real] ! 1 \<and>
   fst (snd (GetGradients (\<lambda>y t g eta w. g + eta)
               (Init (HuberLoss (RegressionHuberLoss_new
                                   \<lparr>gaussian_eta = 1, huber_delta = 1, fair_c = 1\<rparr>))
                  \<lparr>label = [1, 5], weights = Some [2, 3]\<rparr> 2)
               [1, 8] [7, 7] [9, 9])) ! 1 =
   fst (snd (GetGradients (\<lambda>y t g eta w. g + eta)
               (Init (HuberLoss (RegressionHuberLoss_new
                                   \<lparr>gaussian_eta = 1, huber_delta = 1, fair_c = 1\<rparr>))
                  \<lparr>label = [4, 5, 6], weights = Some [1, 3, 1]\<rparr> 3)
               [0, 8, 0] [0, 0, 0, 0] [1, 1, 1])) ! 1 \<and>
   snd (snd (GetGradients (\<lambda>y t g eta w. g + eta)
               (Init (HuberLoss (RegressionHuberLoss_new
                                   \<lparr>gaussian_eta = 1, huber_delta = 1, fair_c = 1\<rparr>))
                  \<lparr>label = [1, 5], weights = Some [2, 3]\<rparr> 2)
               [1, 8] [7, 7] [9, 9])) ! 1 =
   snd (snd (GetGradients (\<lambda>y t g eta w. g + eta)
               (Init (HuberLoss (RegressionHuberLoss_new
                                   \<lparr>gaussian_eta = 1, huber_delta = 1, fair_c = 1\<rparr>))
                  \<lparr>label = [4, 5, 6], weights = Some [1, 3, 1]\<rparr> 3)
               [0, 8, 0] [0, 0, 0, 0] [1, 1, 1])) ! 1"
  using GetGradients_pointwise
    [of 2 "\<lparr>label = [1, 5], weights = Some [2, 3]\<rparr>" "[1, 8]" "[7, 7]" "[9, 9]"
        3 "\<lparr>label = [4, 5, 6], weights = Some [1, 3, 1]\<rparr>" "[0, 8, 0]" "[0, 0, 0, 0]" "[1, 1, 1]"
        1 "\<lambda>y t g eta w. g + eta"
        "HuberLoss (RegressionHuberLoss_new \<lparr>gaussian_eta = 1, huber_delta = 1, fair_c = 1\<rparr>)"]
  by (simp add: in_bounds_def)

text \<open>
  Claim C8. For each of the four classes, a call of \<^verbatim>\<open>GetGradients\<close> within bounds
  returns the object as it was, with the label and weight vectors bound to it. A second
  call with the same scores, on the object and the output vectors the first call
  returned, returns exactly what the first returned. A call with the same scores on
  output vectors with other contents writes the same first \<^verbatim>\<open>num_data_\<close> gradients and
  hessians. (In the model a value of type \<open>real\<close> stands for the bits of a number.)
\<close>

theorem GetGradients_deterministic:
  assumes "in_bounds (num_data_of obj) (label_of obj) (weights_of obj) score gradients hessians"
  shows "fst (GetGradients A obj score gradients hessians) = obj \<and>
         GetGradients A (fst (GetGradients A obj score gradients hessians)) score
           (fst (snd (GetGradients A obj score gradients hessians)))
           (snd (snd (GetGradients A obj score gradients hessians))) =
         GetGradients A obj score gradients hessians \<and>
         (\<forall>gradients2 hessians2.
            in_bounds (num_data_of obj) (label_of obj) (weights_of obj) score
              gradients2 hessians2 \<longrightarrow>
            take (nat (num_data_of obj))
              (fst (snd (GetGradients A obj score gradients2 hessians2))) =
            take (nat (num_data_of obj))
              (fst (snd (GetGradients A obj score gradients hessians))) \<and>
            take (nat (num_data_of obj))
              (snd (snd (GetGradients A obj score gradients2 hessians2))) =
            take (nat (num_data_of obj))
              (snd (snd (GetGradients A obj score gradients hessians))))"
proof -
  have again: "fst (GetGradients A obj score gradients hessians) = obj \<and>
         GetGradients A (fst (GetGradients A obj score gradients hessians)) score
           (fst (snd (GetGradients A obj score gradients hessians)))
           (snd (snd (GetGradients A obj score gradients hessians))) =
         GetGradients A obj score gradients hessians"
    using assms
    by (cases obj)
       (simp_all add: RegressionL2loss_GetGradients_again RegressionL1loss_GetGradients_again
          RegressionHuberLoss_GetGradients_again RegressionFairLoss_GetGradients_again)
  have same: "take (nat (num_data_of obj))
              (fst (snd (GetGradients A obj score gradients2 hessians2))) =
            take (nat (num_data_of obj))
              (fst (snd (GetGradients A obj score gradients hessians))) \<and>
            take (nat (num_data_of obj))
              (snd (snd (GetGradients A obj score gradients2 hessians2))) =
            take (nat (num_data_of obj))
              (snd (snd (GetGradients A obj score gradients hessians)))"
    if b2: "in_bounds (num_data_of obj) (label_of obj) (weights_of obj) score
              gradients2 hessians2" for gradients2 hessians2
  proof -
    have len: "nat (num_data_of obj) \<le> length gradients"
        "nat (num_data_of obj) \<le> length hessians"
        "nat (num_data_of obj) \<le> length gradients2"
        "nat (num_data_of obj) \<le> length hessians2"
      using assms b2 by (simp_all add: in_bounds_def)
    show ?thesis
    proof (cases obj)
      case (L2loss this)
      show ?thesis
        using assms b2 len unfolding L2loss
        by (simp add: RegressionL2loss_GetGradients_eq take_rewritten)
    next
      case (L1loss this)
      show ?thesis
        using assms b2 len unfolding L1loss
        by (simp add: RegressionL1loss_GetGradients_eq take_rewritten)
    next
      case (HuberLoss this)
      show ?thesis
        using assms b2 len unfolding HuberLoss
        by (simp add: RegressionHuberLoss_GetGradients_eq take_rewritten)
    next
      case (FairLoss this)
      show ?thesis
        using assms b2 len unfolding FairLoss
        by (simp add: RegressionFairLoss_GetGradients_eq take_rewritten)
    qed
  qed
  show ?thesis
    using again same by blast
qed

theorem GetGradients_deterministic_witness:
  "in_bounds 2 [1, 5] (Some [2, 3]) [1, 8] [7, 7] [9, 9] \<and>
   fst (GetGradients (\<lambda>y t g eta w. g + eta)
          (Init (L1loss (RegressionL1loss_new \<lparr>gaussian_eta = 1, huber_delta = 1, fair_c = 1\<rparr>))
             \<lparr>label = [1, 5], weights = Some [2, 3]\<rparr> 2)
          [1, 8] [7, 7] [9, 9]) =
     Init (L1loss (RegressionL1loss_new \<lparr>gaussian_eta = 1, huber_delta = 1, fair_c = 1\<rparr>))
       \<lparr>label = [1, 5], weights = Some [2, 3]\<rparr> 2 \<and>
   GetGradients (\<lambda>y t g eta w. g + eta)
     (fst (GetGradients (\<lambda>y t g eta w. g + eta)
             (Init (L1loss (RegressionL1loss_new
                              \<lparr>gaussian_eta = 1, huber_delta = 1, fair_c = 1\<rparr>))
                \<lparr>label = [1, 5], weights = Some [2, 3]\<rparr> 2)
             [1, 8] [7, 7] [9, 9]))
     [1, 8]
     (fst (snd (GetGradients (\<lambda>y t g eta w. g + eta)
                  (Init (L1loss (RegressionL1loss_new
                                   \<lparr>gaussian_eta = 1, huber_delta = 1, fair_c = 1\<rparr>))
                     \<lparr>label = [1, 5], weights = Some [2, 3]\<rparr> 2)
                  [1, 8] [7, 7] [9, 9])))
     (snd (snd (GetGradients (\<lambda>y t g eta w. g + eta)
                  (Init (L1loss (RegressionL1loss_new
                                   \<lparr>gaussian_eta = 1, huber_delta = 1, fair_c = 1\<rparr>))
                     \<lparr>label = [1, 5], weights = Some [2, 3]\<rparr> 2)
                  [1, 8] [7, 7] [9, 9]))) =
   GetGradients (\<lambda>y t g eta w. g + eta)
     (Init (L1loss (RegressionL1loss_new \<lparr>gaussian_eta = 1, huber_delta = 1, fair_c = 1\<rparr>))
        \<lparr>label = [1, 5], weights = Some [2, 3]\<rparr> 2)
     [1, 8] [7, 7] [9, 9]"
proof -
  let ?obj = "Init (L1loss (RegressionL1loss_new
                              \<lparr>gaussian_eta = 1, huber_delta = 1, fair_c = 1\<rparr>))
                \<lparr>label = [1, 5], weights = Some [2, 3]\<rparr> 2"
  have b: "in_bounds (num_data_of ?obj) (label_of ?obj) (weights_of ?obj) [1, 8] [7, 7] [9, 9]"
    by (simp add: in_bounds_def RegressionL1loss_Init_def)
  note T = GetGradients_deterministic [OF b, of "\<lambda>y t g eta w. g + eta"]
  show ?thesis
    using T [THEN conjunct1] T [THEN conjunct2, THEN conjunct1]
    by (simp add: in_bounds_def)
qed

section \<open>Names\<close>

text \<open>
  Claim C9. \<^verbatim>\<open>GetName\<close> returns \<open>regression\<close> for the squared-error class,
  \<open>regression_l1\<close> for the absolute-error class, \<open>huber\<close> for the Huber class and
  \<open>fair\<close> for the Fair class, whatever the members of the instance hold (so whatever
  the configuration and the metadata were), and a call of \<^verbatim>\<open>Init\<close> or \<^verbatim>\<open>GetGradients\<close>
  through the interface leaves the name as it was.
\<close>

theorem GetName_fixed:
  "RegressionL2loss_GetName l2 = ''regression'' \<and>
   RegressionL1loss_GetName l1 = ''regression_l1'' \<and>
   RegressionHuberLoss_GetName hu = ''huber'' \<and>
   RegressionFairLoss_GetName fa = ''fair'' \<and>
   GetName (Init obj metadata num_data) = GetName obj \<and>
   GetName (fst (GetGradients A obj score gradients hessians)) = GetName obj"
  by (cases obj)
     (simp_all add: RegressionL2loss_GetName_def RegressionL1loss_GetName_def
        RegressionHuberLoss_GetName_def RegressionFairLoss_GetName_def)

theorem GetName_fixed_witness:
  "GetName (L2loss (RegressionL2loss_new \<lparr>gaussian_eta = 1, huber_delta = 2, fair_c = 3\<rparr>)) = ''regression'' \<and>
   GetName (L1loss (RegressionL1loss_new \<lparr>gaussian_eta = 1, huber_delta = 2, fair_c = 3\<rparr>)) = ''regression_l1'' \<and>
   GetName (HuberLoss (RegressionHuberLoss_new \<lparr>gaussian_eta = 1, huber_delta = 2, fair_c = 3\<rparr>)) = ''huber'' \<and>
   GetName (FairLoss (RegressionFairLoss_new \<lparr>gaussian_eta = 1, huber_delta = 2, fair_c = 3\<rparr>)) = ''fair'' \<and>
   GetName (Init (HuberLoss (RegressionHuberLoss_new \<lparr>gaussian_eta = 1, huber_delta = 2, fair_c = 3\<rparr>))
              \<lparr>label = [1, 2, 3], weights = None\<rparr> 3) = ''huber''"
  using GetName_fixed
    [of "RegressionL2loss_new \<lparr>gaussian_eta = 1, huber_delta = 2, fair_c = 3\<rparr>"
        "RegressionL1loss_new \<lparr>gaussian_eta = 1, huber_delta = 2, fair_c = 3\<rparr>"
        "RegressionHuberLoss_new \<lparr>gaussian_eta = 1, huber_delta = 2, fair_c = 3\<rparr>"
        "RegressionFairLoss_new \<lparr>gaussian_eta = 1, huber_delta = 2, fair_c = 3\<rparr>"
        "HuberLoss (RegressionHuberLoss_new \<lparr>gaussian_eta = 1, huber_delta = 2, fair_c = 3\<rparr>)"
        "\<lparr>label = [1, 2, 3], weights = None\<rparr>" 3]
  by simp

section \<open>Rounding\<close>

text \<open>
  The value of \<open>round_nearest\<close> at a given number: when \<open>2 ^ e \<le> \<bar>x\<bar> < 2 ^ (e + 1)\<close> the
  exponent of \<open>x\<close> is \<open>e\<close>, and the rounding is a rounding of \<open>x / q\<close> to an integer, \<open>q\<close> the
  spacing at that exponent. Integers below \<open>2\<close> to the precision are exact.
\<close>

lemma pow2_pos: "0 < pow2 e"
  by (simp add: pow2_def)

lemma pow2_powr: "pow2 e = 2 powr (of_int e)"
  by (cases "0 \<le> e") (auto simp: pow2_def powr_realpow [symmetric] powr_minus divide_inverse)

lemma floor_log2_eq:
  assumes "pow2 e \<le> x" "x < pow2 (e + 1)"
  shows "\<lfloor>log 2 x\<rfloor> = e"
proof -
  have pos: "0 < x" using assms(1) pow2_pos [of e] by linarith
  have "of_int e \<le> log 2 x"
    using assms(1) pos by (simp add: pow2_powr le_log_iff)
  moreover have "log 2 x < of_int e + 1"
    using assms(2) pos by (simp add: pow2_powr log_less_iff)
  ultimately show ?thesis by linarith
qed

lemma round_nearest_eval:
  assumes "pow2 e \<le> \<bar>x\<bar>" "\<bar>x\<bar> < pow2 (e + 1)"
    and "q = pow2 (max e (emin fmt) - (int (precision fmt) - 1))"
    and "r = q * of_int (round_half_even (x / q))"
  shows "round_nearest fmt x = (if pow2 (emax fmt + 1) \<le> \<bar>r\<bar> then Infinity (r < 0) else Num r)"
proof -
  have "x \<noteq> 0" using assms(1) pow2_pos [of e] by linarith
  then show ?thesis
    by (simp add: round_nearest_def round_real_def quantum_def floor_log2_eq [OF assms(1,2)] assms(3,4) Let_def)
qed

lemma round_half_even_of_int: "round_half_even (of_int m) = m"
  by (simp add: round_half_even_def)

lemma pow2_mono: "a \<le> b \<Longrightarrow> pow2 a \<le> pow2 b"
  by (simp add: pow2_powr)

lemma round_nearest_0: "round_nearest fmt 0 = Num 0"
  by (simp add: round_nearest_def)

lemma round_nearest_exactI:
  assumes "pow2 e \<le> \<bar>x\<bar>" "\<bar>x\<bar> < pow2 (e + 1)"
    and "x = pow2 (max e (emin fmt) - (int (precision fmt) - 1)) * of_int m"
    and "e \<le> emax fmt"
  shows "round_nearest fmt x = Num x"
proof -
  let ?q = "pow2 (max e (emin fmt) - (int (precision fmt) - 1))"
  have q: "?q \<noteq> 0" using pow2_pos [of "max e (emin fmt) - (int (precision fmt) - 1)"] by simp
  have "x / ?q = of_int m" using assms(3) q by (simp add: field_simps)
  then have r: "x = ?q * of_int (round_half_even (x / ?q))"
    using assms(3) by (simp add: round_half_even_of_int)
  have "pow2 (e + 1) \<le> pow2 (emax fmt + 1)" using assms(4) by (intro pow2_mono) simp
  then have "\<not> pow2 (emax fmt + 1) \<le> \<bar>x\<bar>" using assms(2) by linarith
  then show ?thesis
    using round_nearest_eval [OF assms(1,2) refl r] by simp
qed

lemma floor_log2_bounds:
  assumes "0 < x"
  shows "pow2 \<lfloor>log 2 x\<rfloor> \<le> x" "x < pow2 (\<lfloor>log 2 x\<rfloor> + 1)"
proof -
  have "2 powr of_int \<lfloor>log 2 x\<rfloor> \<le> 2 powr log 2 x"
    by (intro powr_mono) simp_all
  then show "pow2 \<lfloor>log 2 x\<rfloor> \<le> x"
    using assms by (simp add: pow2_powr)
  have "2 powr log 2 x < 2 powr of_int (\<lfloor>log 2 x\<rfloor> + 1)"
    by (intro powr_less_mono) (linarith, simp)
  then show "x < pow2 (\<lfloor>log 2 x\<rfloor> + 1)"
    using assms by (simp add: pow2_powr)
qed

lemma pow2_add: "pow2 (a + b) = pow2 a * pow2 b"
  by (simp add: pow2_powr powr_add)

lemma pow2_nat: "pow2 (int n) = 2 ^ n"
  by (simp add: pow2_def)

lemma pow2_less_iff: "pow2 a < pow2 b \<longleftrightarrow> a < b"
  by (simp add: pow2_powr)

lemma round_nearest_int:
  assumes "\<bar>n\<bar> < 2 ^ precision fmt" "emin fmt \<le> 0" "int (precision fmt) - 1 \<le> emax fmt"
  shows "round_nearest fmt (of_int n) = Num (of_int n)"
proof (cases "n = 0")
  case True
  then show ?thesis by (simp add: round_nearest_0)
next
  case False
  let ?x = "of_int n :: real"
  let ?p = "int (precision fmt)"
  define e where "e = \<lfloor>log 2 \<bar>?x\<bar>\<rfloor>"
  have pos: "0 < \<bar>?x\<bar>" using False by simp
  have lo: "pow2 e \<le> \<bar>?x\<bar>" and hi: "\<bar>?x\<bar> < pow2 (e + 1)"
    unfolding e_def using floor_log2_bounds [OF pos] by simp_all
  have "1 \<le> \<bar>?x\<bar>" using False by (simp flip: of_int_abs add: int_one_le_iff_zero_less)
  then have "pow2 0 < pow2 (e + 1)" using hi by (simp add: pow2_def)
  then have e0: "0 \<le> e" by (simp add: pow2_less_iff)
  have "\<bar>?x\<bar> < pow2 ?p"
    using assms(1) by (simp add: pow2_nat flip: of_int_abs)
  then have "pow2 e < pow2 ?p" using lo by linarith
  then have ep: "e < ?p" by (simp add: pow2_less_iff)
  have m: "max e (emin fmt) = e" using e0 assms(2) by simp
  define k where "k = nat (?p - 1 - e)"
  have k: "int k = ?p - 1 - e" using ep by (simp add: k_def)
  have "pow2 (e - (?p - 1)) * 2 ^ k = pow2 (e - (?p - 1)) * pow2 (int k)"
    by (simp add: pow2_nat)
  also have "\<dots> = pow2 0" unfolding pow2_add [symmetric] k by simp
  finally have q: "pow2 (e - (?p - 1)) * 2 ^ k = 1" by (simp add: pow2_def)
  have "?x = pow2 (max e (emin fmt) - (?p - 1)) * of_int (n * 2 ^ k)"
    unfolding m using q by (simp add: algebra_simps)
  moreover have "e \<le> emax fmt" using ep assms(3) by linarith
  ultimately show ?thesis
    using lo hi by (intro round_nearest_exactI [where e = e and m = "n * 2 ^ k"])
qed

lemma round64_int: "\<bar>n\<bar> < 2 ^ 53 \<Longrightarrow> round_nearest binary64 (of_int n) = Num (of_int n)"
  by (rule round_nearest_int) (simp_all add: binary64_def)

lemma round32_int: "\<bar>n\<bar> < 2 ^ 24 \<Longrightarrow> round_nearest binary32 (of_int n) = Num (of_int n)"
  by (rule round_nearest_int) (simp_all add: binary32_def)

lemma fp_sub_Num: "fp_sub fmt (Num a) (Num b) = round_nearest fmt (a - b)"
  by (simp add: fp_sub_def)

lemma round64_small:
  "round_nearest binary64 1 = Num 1" "round_nearest binary64 (- 1) = Num (- 1)"
  "round_nearest binary64 2 = Num 2" "round_nearest binary64 (- 2) = Num (- 2)"
  "round_nearest binary64 3 = Num 3" "round_nearest binary64 (- 4) = Num (- 4)"
  "round_nearest binary64 (- 8) = Num (- 8)"
  "round_nearest binary64 16777217 = Num 16777217"
  "round_nearest binary64 50331651 = Num 50331651"
  "round_nearest binary64 1073741824 = Num 1073741824"
  "round_nearest binary64 1073741825 = Num 1073741825"
  using round64_int [of 1] round64_int [of "- 1"] round64_int [of 2] round64_int [of "- 2"]
    round64_int [of 3] round64_int [of "- 4"] round64_int [of "- 8"]
    round64_int [of 16777217] round64_int [of 50331651]
    round64_int [of 1073741824] round64_int [of 1073741825]
  by simp_all

lemma round32_small:
  "round_nearest binary32 1 = Num 1" "round_nearest binary32 (- 1) = Num (- 1)"
  "round_nearest binary32 (- 2) = Num (- 2)" "round_nearest binary32 (- 4) = Num (- 4)"
  "round_nearest binary32 5 = Num 5" "round_nearest binary32 (- 8) = Num (- 8)"
  "round_nearest binary32 (- 16) = Num (- 16)"
  using round32_int [of 1] round32_int [of "- 1"] round32_int [of "- 2"] round32_int [of "- 4"]
    round32_int [of 5] round32_int [of "- 8"] round32_int [of "- 16"]
  by simp_all

lemma round32_16777217: "round_nearest binary32 16777217 = Num 16777216"
  by (subst round_nearest_eval [where e = "24" and q = "2" and r = "16777216"])
     (simp_all add: pow2_def binary32_def round_half_even_def)

section \<open>What each GetGradients returns, on floating-point values\<close>

text \<open>
  As in the exact reading: within bounds, the two vectors come back with their first
  \<^verbatim>\<open>num_data_\<close> elements replaced, element \<open>k\<close> by the value the loop body computes at
  \<open>i = k\<close>.
\<close>

lemma RegressionL2loss_GetGradients_fp_eq:
  assumes "in_bounds_fp (num_data_fp this) (label_fp this) (weights_fp this) score g h"
  shows "RegressionL2loss_GetGradients_fp this score g h =
    (map (\<lambda>k. if k < nat (num_data_fp this)
                then (case weights_fp this of
                        None \<Rightarrow> static_cast_score_t_fp (fp_sub binary64 (score ! k) (label_fp this ! k))
                      | Some w \<Rightarrow>
                          fp_mul binary32
                            (static_cast_score_t_fp (fp_sub binary64 (score ! k) (label_fp this ! k)))
                            (w ! k))
                else g ! k) [0..<length g],
     map (\<lambda>k. if k < nat (num_data_fp this)
                then (case weights_fp this of None \<Rightarrow> Num 1 | Some w \<Rightarrow> w ! k)
                else h ! k) [0..<length h])"
proof (cases "weights_fp this")
  case None
  show ?thesis
    unfolding RegressionL2loss_GetGradients_fp_def None option.case
    by (subst for_loop_writes
          [where G = "\<lambda>i. static_cast_score_t_fp
                             (fp_sub binary64 (score ! nat i) (label_fp this ! nat i))"
             and H = "\<lambda>i. Num 1"])
       (use assms in \<open>simp_all add: in_bounds_fp_def\<close>)
next
  case (Some w)
  show ?thesis
    unfolding RegressionL2loss_GetGradients_fp_def Some option.case
    by (subst for_loop_writes
          [where G = "\<lambda>i. fp_mul binary32
                             (static_cast_score_t_fp
                                (fp_sub binary64 (score ! nat i) (label_fp this ! nat i)))
                             (w ! nat i)"
             and H = "\<lambda>i. w ! nat i"])
       (use assms in \<open>simp_all add: in_bounds_fp_def\<close>)
qed



section \<open>Squared error\<close>

text \<open>
  Claim C1, amended. Every call of \<^verbatim>\<open>RegressionL2loss::GetGradients\<close> within bounds writes,
  at every index \<open>i\<close> below \<^verbatim>\<open>num_data_\<close>: with no weight vector bound, the gradient that is
  the double difference \<open>score[i] - label[i]\<close> rounded to float, and the hessian \<open>1\<close>; with a
  weight vector bound, the gradient that is the float product of that float and
  \<open>weight[i]\<close>, and the hessian \<open>weight[i]\<close>. The gradient is \<open>score[i] - label[i]\<close> itself
  when that number is exact in binary64 and in binary32, and, with weights,
  \<open>(score[i] - label[i]) * weight[i]\<close> when moreover that product is exact in binary32.
  With the labels \<open>[1, 2, 3]\<close>, the scores \<open>[1, 1, 1]\<close> and no weights the call returns the
  gradients \<open>[0, - 1, - 2]\<close> and the hessians \<open>[1, 1, 1]\<close>, whatever the output vectors held
  before.
\<close>

theorem RegressionL2loss_GetGradients_fp_values:
  assumes "in_bounds_fp (num_data_fp this) (label_fp this) (weights_fp this)
             score gradients hessians"
    and "i < nat (num_data_fp this)"
  shows "fst (RegressionL2loss_GetGradients_fp this score gradients hessians) ! i =
           (case weights_fp this of
              None \<Rightarrow> static_cast_score_t_fp (fp_sub binary64 (score ! i) (label_fp this ! i))
            | Some w \<Rightarrow>
                fp_mul binary32
                  (static_cast_score_t_fp (fp_sub binary64 (score ! i) (label_fp this ! i)))
                  (w ! i)) \<and>
         snd (RegressionL2loss_GetGradients_fp this score gradients hessians) ! i =
           (case weights_fp this of None \<Rightarrow> Num 1 | Some w \<Rightarrow> w ! i) \<and>
         (\<forall>a b. score ! i = Num a \<and> label_fp this ! i = Num b \<and>
                exact binary64 (a - b) \<and> exact binary32 (a - b) \<longrightarrow>
            (case weights_fp this of
               None \<Rightarrow>
                 fst (RegressionL2loss_GetGradients_fp this score gradients hessians) ! i =
                   Num (a - b)
             | Some w \<Rightarrow>
                 (\<forall>c. w ! i = Num c \<and> exact binary32 ((a - b) * c) \<longrightarrow>
                    fst (RegressionL2loss_GetGradients_fp this score gradients hessians) ! i =
                      Num ((a - b) * c)))) \<and>
         (num_data_fp this = 3 \<and> label_fp this = [Num 1, Num 2, Num 3] \<and>
          weights_fp this = None \<and> score = [Num 1, Num 1, Num 1] \<and>
          length gradients = 3 \<and> length hessians = 3 \<longrightarrow>
            RegressionL2loss_GetGradients_fp this score gradients hessians =
              ([Num 0, Num (- 1), Num (- 2)], [Num 1, Num 1, Num 1]))"
proof -
  note eq = RegressionL2loss_GetGradients_fp_eq [OF assms(1)]
  have len: "i < length gradients" "i < length hessians"
    using assms by (simp_all add: in_bounds_fp_def)
  have written:
    "fst (RegressionL2loss_GetGradients_fp this score gradients hessians) ! i =
       (case weights_fp this of
          None \<Rightarrow> static_cast_score_t_fp (fp_sub binary64 (score ! i) (label_fp this ! i))
        | Some w \<Rightarrow>
            fp_mul binary32
              (static_cast_score_t_fp (fp_sub binary64 (score ! i) (label_fp this ! i)))
              (w ! i))"
    "snd (RegressionL2loss_GetGradients_fp this score gradients hessians) ! i =
       (case weights_fp this of None \<Rightarrow> Num 1 | Some w \<Rightarrow> w ! i)"
    using assms(2) len by (simp_all add: eq split: option.split)
  have exactly:
    "case weights_fp this of
       None \<Rightarrow>
         fst (RegressionL2loss_GetGradients_fp this score gradients hessians) ! i = Num (a - b)
     | Some w \<Rightarrow>
         (\<forall>c. w ! i = Num c \<and> exact binary32 ((a - b) * c) \<longrightarrow>
            fst (RegressionL2loss_GetGradients_fp this score gradients hessians) ! i =
              Num ((a - b) * c))"
    if "score ! i = Num a" "label_fp this ! i = Num b"
       "exact binary64 (a - b)" "exact binary32 (a - b)" for a b
    using that unfolding written(1)
    by (simp add: fp_sub_Num exact_def split: option.split)
  have scenario: "RegressionL2loss_GetGradients_fp this score gradients hessians =
      ([Num 0, Num (- 1), Num (- 2)], [Num 1, Num 1, Num 1])"
    if "num_data_fp this = 3" "label_fp this = [Num 1, Num 2, Num 3]" "weights_fp this = None"
       "score = [Num 1, Num 1, Num 1]" "length gradients = 3" "length hessians = 3"
  proof -
    have u: "[0..<3] = [0, 1, 2]" by (simp add: upt_rec)
    show ?thesis
      unfolding eq using that
      by (simp add: u fp_sub_Num round_nearest_0 round64_small round32_small)
  qed
  show ?thesis
    using written exactly scenario by blast
qed

theorem RegressionL2loss_GetGradients_fp_values_witness:
  "in_bounds_fp 3 [Num 1, Num 2, Num 3] (Some [Num 2, Num 4, Num 8]) [Num 1, Num 1, Num 1]
     [Num 0, Num 0, Num 0] [Num 0, Num 0, Num 0] \<and> (2::nat) < nat 3 \<and>
   fst (RegressionL2loss_GetGradients_fp
          \<lparr>num_data_fp = 3, label_fp = [Num 1, Num 2, Num 3],
           weights_fp = Some [Num 2, Num 4, Num 8]\<rparr>
          [Num 1, Num 1, Num 1] [Num 0, Num 0, Num 0] [Num 0, Num 0, Num 0]) ! 2 = Num (- 16) \<and>
   snd (RegressionL2loss_GetGradients_fp
          \<lparr>num_data_fp = 3, label_fp = [Num 1, Num 2, Num 3],
           weights_fp = Some [Num 2, Num 4, Num 8]\<rparr>
          [Num 1, Num 1, Num 1] [Num 0, Num 0, Num 0] [Num 0, Num 0, Num 0]) ! 2 = Num 8 \<and>
   RegressionL2loss_GetGradients_fp
     \<lparr>num_data_fp = 3, label_fp = [Num 1, Num 2, Num 3], weights_fp = None\<rparr>
     [Num 1, Num 1, Num 1] [Num 7, Num 7, Num 7] [Num 9, Num 9, Num 9] =
     ([Num 0, Num (- 1), Num (- 2)], [Num 1, Num 1, Num 1])"
proof -
  let ?w = "\<lparr>num_data_fp = 3, label_fp = [Num 1, Num 2, Num 3],
             weights_fp = Some [Num 2, Num 4, Num 8]\<rparr>"
  let ?u = "\<lparr>num_data_fp = 3, label_fp = [Num 1, Num 2, Num 3], weights_fp = None\<rparr>"
  have bw: "in_bounds_fp (num_data_fp ?w) (label_fp ?w) (weights_fp ?w)
              [Num 1, Num 1, Num 1] [Num 0, Num 0, Num 0] [Num 0, Num 0, Num 0]"
    and bu: "in_bounds_fp (num_data_fp ?u) (label_fp ?u) (weights_fp ?u)
              [Num 1, Num 1, Num 1] [Num 7, Num 7, Num 7] [Num 9, Num 9, Num 9]"
    by (simp_all add: in_bounds_fp_def)
  have iw: "(2::nat) < nat (num_data_fp ?w)" and iu: "(0::nat) < nat (num_data_fp ?u)"
    by simp_all
  note W = RegressionL2loss_GetGradients_fp_values [OF bw iw]
  note U = RegressionL2loss_GetGradients_fp_values [OF bu iu]
  have "fst (RegressionL2loss_GetGradients_fp ?w
               [Num 1, Num 1, Num 1] [Num 0, Num 0, Num 0] [Num 0, Num 0, Num 0]) ! 2 =
          Num (- 16)"
    using W [THEN conjunct1]
    by (simp add: fp_sub_Num round64_small round32_small)
  moreover have "snd (RegressionL2loss_GetGradients_fp ?w
               [Num 1, Num 1, Num 1] [Num 0, Num 0, Num 0] [Num 0, Num 0, Num 0]) ! 2 = Num 8"
    using W [THEN conjunct2, THEN conjunct1] by simp
  moreover have "RegressionL2loss_GetGradients_fp ?u
       [Num 1, Num 1, Num 1] [Num 7, Num 7, Num 7] [Num 9, Num 9, Num 9] =
       ([Num 0, Num (- 1), Num (- 2)], [Num 1, Num 1, Num 1])"
    using U [THEN conjunct2, THEN conjunct2, THEN conjunct2] by simp
  ultimately show ?thesis
    by (simp add: in_bounds_fp_def)
qed

text \<open>
  The gradient is not \<open>score[i] - label[i]\<close> for every score and label. With the score
  \<open>16777217 = 2 ^ 24 + 1\<close> and the label \<open>0\<close> the double difference is \<open>16777217\<close>, which
  lies halfway between the floats \<open>16777216\<close> and \<open>16777218\<close>: the call writes \<open>16777216\<close>.
\<close>

theorem RegressionL2loss_exact_difference_counterexample:
  "fst (RegressionL2loss_GetGradients_fp
          \<lparr>num_data_fp = 1, label_fp = [Num 0], weights_fp = None\<rparr>
          [Num 16777217] [Num 0] [Num 0]) ! 0 = Num 16777216 \<and>
   fst (RegressionL2loss_GetGradients_fp
          \<lparr>num_data_fp = 1, label_fp = [Num 0], weights_fp = None\<rparr>
          [Num 16777217] [Num 0] [Num 0]) ! 0 \<noteq> Num (16777217 - 0)"
  by (simp add: RegressionL2loss_GetGradients_fp_def for_loop.simps fp_sub_Num
        round64_small round32_16777217)

section \<open>Huber\<close>






section \<open>Fair\<close>









section \<open>Rounding is monotone\<close>

text \<open>
  Rounding to nearest keeps the order of its arguments, fixes the numbers of the format
  and commutes with unary minus; so each operation keeps or reverses the order of
  its operands as the exact operation does.
\<close>

lemma round_nearest_round_real:
  "round_nearest fmt x =
     (if pow2 (emax fmt + 1) \<le> \<bar>round_real fmt x\<bar> then Infinity (round_real fmt x < 0)
      else Num (round_real fmt x))"
  using pow2_pos [of "emax fmt + 1"]
  by (simp add: round_nearest_def round_real_def Let_def round_half_even_of_int [of 0, simplified])

lemma round_half_even_mono:
  assumes "x \<le> y"
  shows "round_half_even x \<le> round_half_even y"
proof (cases "\<lfloor>x\<rfloor> = \<lfloor>y\<rfloor>")
  case True
  then show ?thesis
    using assms by (auto simp: round_half_even_def Let_def)
next
  case False
  then have "\<lfloor>x\<rfloor> < \<lfloor>y\<rfloor>" using floor_mono [OF assms] by linarith
  then have "\<lfloor>x\<rfloor> + 1 \<le> \<lfloor>y\<rfloor>" by linarith
  moreover have "round_half_even x \<le> \<lfloor>x\<rfloor> + 1"
    by (auto simp: round_half_even_def Let_def)
  moreover have "\<lfloor>y\<rfloor> \<le> round_half_even y"
    by (auto simp: round_half_even_def Let_def)
  ultimately show ?thesis by linarith
qed


lemma quantum_pos: "0 < quantum fmt x"
  by (simp add: quantum_def pow2_pos)




lemma quantum_scale:
  "quantum fmt x * 2 ^ precision fmt =
     pow2 (max \<lfloor>log 2 \<bar>x\<bar>\<rfloor> (emin fmt) + 1)"
proof -
  have "quantum fmt x * 2 ^ precision fmt =
          pow2 (max \<lfloor>log 2 \<bar>x\<bar>\<rfloor> (emin fmt) - (int (precision fmt) - 1)) *
          pow2 (int (precision fmt))"
    by (simp add: quantum_def pow2_nat)
  also have "\<dots> = pow2 (max \<lfloor>log 2 \<bar>x\<bar>\<rfloor> (emin fmt) + 1)"
    unfolding pow2_add [symmetric] by (simp add: algebra_simps)
  finally show ?thesis .
qed








lemma round_half_even_le_pow:
  assumes "0 < x"
  shows "round_half_even (x / quantum fmt x) \<le> 2 ^ precision fmt"
proof -
  let ?E = "max \<lfloor>log 2 x\<rfloor> (emin fmt)"
  let ?q = "quantum fmt x"
  have "x < pow2 (\<lfloor>log 2 x\<rfloor> + 1)" using floor_log2_bounds(2) [OF assms] .
  also have "\<dots> \<le> pow2 (?E + 1)" by (intro pow2_mono) simp
  finally have "x < ?q * 2 ^ precision fmt"
    using quantum_scale [of fmt x] assms by simp
  then have "x / ?q \<le> of_int (2 ^ precision fmt)"
    using quantum_pos [of fmt x] by (simp add: field_simps)
  then show ?thesis
    using round_half_even_mono [of "x / ?q" "of_int (2 ^ precision fmt)"]
    by (simp only: round_half_even_of_int)
qed







lemma round_nearest_not_NaN [simp]: "round_nearest fmt x \<noteq> NaN"
  by (simp add: round_nearest_round_real)

lemma fp_le_refl_Num [simp]: "fp_le (Num a) (Num a)"
  by simp

lemma fp_le_Inf_False [simp]: "x \<noteq> NaN \<Longrightarrow> fp_le x (Infinity False)"
  by (cases x) simp_all

lemma fp_le_Inf_True [simp]: "x \<noteq> NaN \<Longrightarrow> fp_le (Infinity True) x"
  by (cases x) simp_all










section \<open>Bounds of the Fair outputs\<close>



























end
